theory Spec2Isabelle
  imports Main "HOL-Library.Sublist"
begin

section \<open>The browser-extension popup (src/browser-ext/popup.js)\<close>

text \<open>
  The popup script drives an exporter object that lives in the content-script scope of
  the active tab. It sends code strings to the tab (\<open>chrome.tabs.executeScript\<close>),
  receives tagged messages back (\<open>chrome.runtime.onMessage\<close>), keeps one preference
  in \<open>chrome.storage.sync\<close> and fills three \<open>select\<close> elements. This theory
  embeds those functions with the DOM, the console, the scripts handed to the tab and the
  storage area as explicit state.
\<close>

subsection \<open>JavaScript values and errors\<close>

text \<open>
  The values that can come out of the storage area or a JSON file. Numbers are integers
  here; no function of the popup computes with them.
\<close>

datatype js_value =
    JUndefined
  | JNull
  | JBool bool
  | JNum int
  | JStr string
  | JArr "js_value list"
  | JObj "(string \<times> js_value) list"

datatype js_error = TypeError string | StorageError string | NetworkError string

text \<open>The state a promise ends in.\<close>

datatype 'a promise = Resolved 'a | Rejected js_error | Pending

text \<open>Truthiness, and the operator \<open>a || b\<close>.\<close>

fun truthy :: "js_value \<Rightarrow> bool" where
  "truthy JUndefined = False"
| "truthy JNull = False"
| "truthy (JBool b) = b"
| "truthy (JNum n) = (n \<noteq> 0)"
| "truthy (JStr s) = (s \<noteq> [])"
| "truthy (JArr xs) = True"
| "truthy (JObj kvs) = True"

definition js_or :: "js_value \<Rightarrow> js_value \<Rightarrow> js_value" where
  "js_or a b = (if truthy a then a else b)"

subsection \<open>Array and string methods\<close>

text \<open>
  \<open>Array.prototype.includes\<close>, \<open>indexOf\<close> (the first index, \<open>-1\<close> when absent),
  \<open>splice(start, deleteCount)\<close> with a negative start counted from the end and both
  arguments clamped to the array, and \<open>unshift\<close>. On strings and on values read back
  from JSON the two equality tests of \<open>includes\<close> and \<open>indexOf\<close> agree with
  equality of the model.
\<close>

definition arr_includes :: "'a list \<Rightarrow> 'a \<Rightarrow> bool" where
  "arr_includes xs x = (x \<in> set xs)"

fun indexOf :: "'a list \<Rightarrow> 'a \<Rightarrow> int" where
  "indexOf [] x = - 1"
| "indexOf (y # ys) x =
     (if y = x then 0
      else (let i = indexOf ys x in if i < 0 then - 1 else i + 1))"

definition splice :: "'a list \<Rightarrow> int \<Rightarrow> int \<Rightarrow> 'a list" where
  "splice xs start deleteCount =
     (let len = int (length xs);
          actualStart = (if start < 0 then max (len + start) 0 else min start len);
          actualDeleteCount = min (max deleteCount 0) (len - actualStart)
      in take (nat actualStart) xs @ drop (nat (actualStart + actualDeleteCount)) xs)"

definition unshift :: "'a list \<Rightarrow> 'a \<Rightarrow> 'a list" where
  "unshift xs x = x # xs"

text \<open>\<open>String.prototype.includes\<close>: the needle occurs as a contiguous substring.\<close>

definition str_includes :: "string \<Rightarrow> string \<Rightarrow> bool" where
  "str_includes s needle = sublist needle s"

text \<open>The single quote that the code templates put around interpolated values.\<close>

definition squote :: string where
  "squote = [CHR 0x27]"

subsection \<open>Locale merge (message listener, lines 207 to 212)\<close>

text \<open>
  \<^verbatim>\<open>
  if (supported.includes(user)) {
      supported.splice(supported.indexOf(user), 1);
  }
  supported.unshift(user);
  \<close>
\<close>

definition mergeLocales :: "string list \<Rightarrow> string \<Rightarrow> string list" where
  "mergeLocales supported user =
     (let supported1 =
            (if arr_includes supported user
             then splice supported (indexOf supported user) 1
             else supported)
      in unshift supported1 user)"

subsection \<open>The popup document\<close>

text \<open>
  A \<open>select\<close> element is its list of options and the index of the selected one
  (\<open>-1\<close> when none is). Reading \<open>value\<close> gives the selected option's value, or
  the empty string. Setting \<open>innerHTML = ''\<close> removes the options; appending an option
  to a select with nothing selected selects the first option of the list.
\<close>

record option_elem =
  opt_value :: string
  innerText :: string

record select_elem =
  opts :: "option_elem list"
  selectedIndex :: int

definition select_value :: "select_elem \<Rightarrow> string" where
  "select_value s =
     (if 0 \<le> selectedIndex s \<and> selectedIndex s < int (length (opts s))
      then opt_value (opts s ! nat (selectedIndex s))
      else [])"

definition clear_innerHTML :: "select_elem \<Rightarrow> select_elem" where
  "clear_innerHTML s = s\<lparr>opts := [], selectedIndex := - 1\<rparr>"

definition appendChild :: "select_elem \<Rightarrow> option_elem \<Rightarrow> select_elem" where
  "appendChild s opt =
     s\<lparr>opts := opts s @ [opt],
       selectedIndex := (if selectedIndex s < 0 then 0 else selectedIndex s)\<rparr>"

text \<open>An element's \<open>classList\<close>: an ordered set of class names.\<close>

definition classList_remove :: "string list \<Rightarrow> string \<Rightarrow> string list" where
  "classList_remove cs c = removeAll c cs"

definition classList_add :: "string list \<Rightarrow> string \<Rightarrow> string list" where
  "classList_add cs c = (if c \<in> set cs then cs else cs @ [c])"

text \<open>
  The document of the popup: the three selects, and the class lists of the elements
  matched by \<open>.toggle\<close> and by \<open>.loader\<close>.
\<close>

record dom =
  LANG_SELECT :: select_elem
  API_SELECT :: select_elem
  SPEC_SELECT :: select_elem
  toggle_elems :: "string list list"
  loader_elems :: "string list list"

text \<open>
  Messages from the content script. The listener reads \<open>message.value\<close> at the type
  its annotation gives, \<open>{supported: string[], user: string}\<close>; \<open>sender.id\<close> may be
  undefined.
\<close>

record locales_payload =
  supported :: "string list"
  user :: string

record message =
  key :: string
  msg_value :: locales_payload

record sender =
  sender_id :: "string option"

datatype console_entry =
    LogMessage message
  | LogStrings "string list"
  | LogError js_error

text \<open>
  The popup: its document, the console, the code strings handed to
  \<open>chrome.tabs.executeScript\<close> and the URLs passed to \<open>fetch\<close>, both in order.
\<close>

record popup =
  document :: dom
  console :: "console_entry list"
  executed :: "string list"
  fetches :: "string list"

record endpoint =
  name :: string
  url :: string

subsection \<open>Constants (lines 7 to 46)\<close>

definition STORAGE_KEYS_schemaVersion :: string where
  "STORAGE_KEYS_schemaVersion = ''schemaVersion''"

definition SPEC_OPTIONS :: "js_value list" where
  "SPEC_OPTIONS = [JStr ''legacy'', JStr ''stable'', JStr ''beta'']"

subsection \<open>Reading the selects, building code (lines 51 to 69)\<close>

definition getSelectedLang :: "dom \<Rightarrow> string" where
  "getSelectedLang d = select_value (LANG_SELECT d)"

definition getSelectedAPIEndpoint :: "dom \<Rightarrow> string" where
  "getSelectedAPIEndpoint d = select_value (API_SELECT d)"

definition getRunAndShowCode :: "string \<Rightarrow> dom \<Rightarrow> string" where
  "getRunAndShowCode version d =
     ''liToJrInstance.preferLocale = '' @ squote @ getSelectedLang d @ squote @
     '';liToJrInstance.parseAndShowOutput('' @ squote @ version @ squote @ '');''"

subsection \<open>Toggling and loading options (lines 75 to 128)\<close>

definition toggleEnabled :: "bool \<Rightarrow> dom \<Rightarrow> dom" where
  "toggleEnabled isEnabled d =
     d\<lparr>toggle_elems :=
         map (\<lambda>classList.
                classList_add
                  (classList_remove classList (if isEnabled then ''disabled'' else ''enabled''))
                  (if isEnabled then ''enabled'' else ''disabled''))
             (toggle_elems d)\<rparr>"

definition showLoader :: "bool \<Rightarrow> dom \<Rightarrow> dom" where
  "showLoader isEnabled d =
     d\<lparr>loader_elems :=
         map (\<lambda>classList.
                if isEnabled then classList_remove classList ''hidden''
                else classList_add classList ''hidden'')
             (loader_elems d)\<rparr>"

definition loadLangs :: "string list \<Rightarrow> dom \<Rightarrow> dom" where
  "loadLangs langs d =
     (let d1 = d\<lparr>LANG_SELECT := clear_innerHTML (LANG_SELECT d)\<rparr>;
          d2 = fold (\<lambda>lang d'.
                       d'\<lparr>LANG_SELECT :=
                            appendChild (LANG_SELECT d') \<lparr>opt_value = lang, innerText = lang\<rparr>\<rparr>)
                    langs d1
      in toggleEnabled (0 < length langs) d2)"

text \<open>
  An entry of the endpoint list is a descriptor or a falsy placeholder (\<open>None\<close>); the
  loop body is guarded by \<open>if (api_endpoint)\<close>, the final toggle reads the length of
  the list it was given.
\<close>

definition loadApiEndpoints :: "endpoint option list \<Rightarrow> dom \<Rightarrow> dom" where
  "loadApiEndpoints api_endpoints d =
     (let d1 = d\<lparr>API_SELECT := clear_innerHTML (API_SELECT d)\<rparr>;
          d2 = fold (\<lambda>api_endpoint d'.
                       case api_endpoint of
                         None \<Rightarrow> d'
                       | Some e \<Rightarrow>
                           d'\<lparr>API_SELECT :=
                                appendChild (API_SELECT d') \<lparr>opt_value = url e, innerText = name e\<rparr>\<rparr>)
                    api_endpoints d1
      in toggleEnabled (0 < length api_endpoints) d2)"

subsection \<open>The stored preference (lines 166 to 195)\<close>

text \<open>
  The storage area maps keys to values. \<open>chrome.storage.sync.set(items)\<close> writes each
  pair of \<open>items\<close> and leaves the other keys alone; \<open>chrome.storage.sync.get(keys, cb)\<close>
  hands \<open>cb\<close> an object with the requested keys that are stored.

  A read ends in one of three ways. The call itself throws; or the read fails later and
  the callback is run without items, the failure being left in \<open>chrome.runtime.lastError\<close>;
  or the callback is run with the items.
\<close>

datatype storage_read = ReadThrows js_error | ReadNoItems | ReadItems

type_synonym storage = "string \<Rightarrow> js_value option"

definition storage_sync_set :: "(string \<times> js_value) list \<Rightarrow> storage \<Rightarrow> storage" where
  "storage_sync_set items st = fold (\<lambda>(k, v) st'. st'(k \<mapsto> v)) items st"

definition storage_sync_get :: "string list \<Rightarrow> storage \<Rightarrow> storage" where
  "storage_sync_get keys st = (\<lambda>k. if k \<in> set keys then st k else None)"

definition js_get :: "storage \<Rightarrow> string \<Rightarrow> js_value" where
  "js_get obj k = (case obj k of None \<Rightarrow> JUndefined | Some v \<Rightarrow> v)"

definition setSpecVersion :: "string \<Rightarrow> storage \<Rightarrow> storage" where
  "setSpecVersion version st =
     storage_sync_set [(STORAGE_KEYS_schemaVersion, JStr version)] st"

text \<open>
  \<open>rd\<close> is how the read ends. The result is the popup (its console may have the logged
  error) and the state of the returned promise. The \<open>try\<close> of lines 181 to 193
  encloses the call, not the callback: a throwing call reaches the \<open>catch\<close>, which
  logs and resolves. In a callback run without items, \<open>result[...]\<close> on line 183 throws
  a TypeError outside the \<open>try\<close>, neither \<open>res\<close> of lines 185 and 187 is reached and
  the promise stays pending.
\<close>

definition getSpecVersion ::
  "storage_read \<Rightarrow> storage \<Rightarrow> popup \<Rightarrow> popup \<times> js_value promise" where
  "getSpecVersion rd st p =
     (let fallbackVersion = JStr (select_value (SPEC_SELECT (document p))) in
      case rd of
        ReadThrows err \<Rightarrow>
          (p\<lparr>console := console p @ [LogError err]\<rparr>, Resolved fallbackVersion)
      | ReadNoItems \<Rightarrow> (p, Pending)
      | ReadItems \<Rightarrow>
          (let result = storage_sync_get [STORAGE_KEYS_schemaVersion] st;
               storedSetting = js_or (js_get result STORAGE_KEYS_schemaVersion) (JStr [])
           in if arr_includes SPEC_OPTIONS storedSetting
              then (p, Resolved storedSetting)
              else (p, Resolved fallbackVersion)))"

subsection \<open>The message listener (lines 203 to 220)\<close>

text \<open>
  \<open>extensionId\<close> is \<open>chrome.runtime.id\<close>, \<open>endpointsUrl\<close> is what
  \<open>chrome.runtime.getURL('./endpoints.json')\<close> returns, and \<open>fetched\<close> is how the
  fetch of that file ends: an error, or the parsed list. The promise chain has no
  \<open>catch\<close>, so an error of the fetch is returned as the unhandled rejection, beside the
  popup as the listener left it.
\<close>

definition onMessage ::
  "string \<Rightarrow> string \<Rightarrow> js_error + endpoint option list \<Rightarrow> message \<Rightarrow> sender \<Rightarrow> popup
     \<Rightarrow> popup \<times> js_error option" where
  "onMessage extensionId endpointsUrl fetched msg sndr p =
     (let p0 = p\<lparr>console := console p @ [LogMessage msg]\<rparr> in
      if sender_id sndr = Some extensionId \<and> key msg = ''locales'' then
        (let merged = mergeLocales (supported (msg_value msg)) (user (msg_value msg));
             p1 = p0\<lparr>document := loadLangs merged (document p0)\<rparr>;
             p2 = p1\<lparr>fetches := fetches p1 @ [endpointsUrl]\<rparr>
         in case fetched of
              Inl err \<Rightarrow> (p2, Some err)
            | Inr json \<Rightarrow> (p2\<lparr>document := loadApiEndpoints json (document p2)\<rparr>, None))
      else (p0, None))"

subsection \<open>The action buttons (lines 238 to 250)\<close>

definition liToApiButton_click :: "popup \<Rightarrow> popup" where
  "liToApiButton_click p =
     (let p1 = p\<lparr>console := console p @
                   [LogStrings [''selected API endpoint: '', getSelectedAPIEndpoint (document p)]]\<rparr>;
          p2 = p1\<lparr>document := showLoader True (document p1)\<rparr>
      in p2\<lparr>executed := executed p2 @
             [''liToJrInstance.preferLocale = '' @ squote @ getSelectedLang (document p2) @ squote @
              '';liToJrInstance.parseAndSendToApi('' @ squote @
              getSelectedAPIEndpoint (document p2) @ squote @ '');'']\<rparr>)"

definition liToJsonDownloadButton_click :: "popup \<Rightarrow> popup" where
  "liToJsonDownloadButton_click p =
     p\<lparr>executed := executed p @
         [''liToJrInstance.preferLocale = '' @ squote @ getSelectedLang (document p) @ squote @
          '';liToJrInstance.parseAndDownload();'']\<rparr>"

subsection \<open>The bootstrap code run in the tab (lines 31 to 36)\<close>

text \<open>
  The scope of the content script: the page address, the global \<open>isDebug\<close>, whether
  \<open>window.LinkedinToResumeJson\<close> holds the class, the binding \<open>liToJrInstance\<close>
  (\<open>None\<close> while \<open>typeof\<close> gives \<open>'undefined'\<close>) and the number of times the
  constructor has run. The class comes from main.js, so its constructor is the
  parameter \<open>ctor\<close>.
  \<^verbatim>\<open>
  isDebug = window.location.href.includes('li2jr_debug=true');
  window.LinkedinToResumeJson = isDebug ? LinkedinToResumeJson : window.LinkedinToResumeJson;
  liToJrInstance = typeof(liToJrInstance) !== 'undefined' ? liToJrInstance
                                                         : new LinkedinToResumeJson(isDebug);
  \<close>
\<close>

record 'i remote =
  href :: string
  isDebug :: "bool option"
  window_LinkedinToResumeJson :: bool
  liToJrInstance :: "'i option"
  constructed :: nat

definition createMainInstanceCode :: "(bool \<Rightarrow> 'i) \<Rightarrow> 'i remote \<Rightarrow> 'i remote" where
  "createMainInstanceCode ctor r =
     (let d = str_includes (href r) ''li2jr_debug=true'';
          r1 = r\<lparr>isDebug := Some d\<rparr>;
          r2 = r1\<lparr>window_LinkedinToResumeJson :=
                    (if d then True else window_LinkedinToResumeJson r1)\<rparr>
      in case liToJrInstance r2 of
           Some inst \<Rightarrow> r2\<lparr>liToJrInstance := Some inst\<rparr>
         | None \<Rightarrow> r2\<lparr>liToJrInstance := Some (ctor d), constructed := Suc (constructed r2)\<rparr>)"

subsection \<open>Reading a state back, and sample states\<close>

text \<open>The descriptor an option of the endpoint select was made from.\<close>

definition descriptor_of :: "option_elem \<Rightarrow> endpoint" where
  "descriptor_of opt = \<lparr>name = innerText opt, url = opt_value opt\<rparr>"

text \<open>
  A popup as it is when the script starts: empty locale and endpoint selects, the version
  select with the three options and \<open>beta\<close> shown, one disabled \<open>.toggle\<close> element
  and one hidden \<open>.loader\<close> element. Then the same popup after a locales message and a
  fetched endpoint list.
\<close>

definition sample_dom :: dom where
  "sample_dom =
     \<lparr>LANG_SELECT = \<lparr>opts = [], selectedIndex = - 1\<rparr>,
      API_SELECT = \<lparr>opts = [], selectedIndex = - 1\<rparr>,
      SPEC_SELECT =
        \<lparr>opts = [\<lparr>opt_value = ''legacy'', innerText = ''legacy''\<rparr>,
                 \<lparr>opt_value = ''stable'', innerText = ''stable''\<rparr>,
                 \<lparr>opt_value = ''beta'', innerText = ''beta''\<rparr>],
         selectedIndex = 2\<rparr>,
      toggle_elems = [[''toggle'', ''disabled'']],
      loader_elems = [[''loader'', ''hidden'']]\<rparr>"

definition sample_popup :: popup where
  "sample_popup = \<lparr>document = sample_dom, console = [], executed = [], fetches = []\<rparr>"

definition loaded_popup :: popup where
  "loaded_popup =
     fst (onMessage ''ext-id'' ''chrome-extension://ext-id/endpoints.json''
            (Inr [Some \<lparr>name = ''Example'', url = ''https://api.example.com''\<rparr>, None])
            \<lparr>key = ''locales'', msg_value = \<lparr>supported = [''en'', ''de''], user = ''en''\<rparr>\<rparr>
            \<lparr>sender_id = Some ''ext-id''\<rparr> sample_popup)"

section \<open>Properties\<close>

subsection \<open>Array helpers\<close>

lemma arr_includes_iff: "arr_includes xs x \<longleftrightarrow> x \<in> set xs"
  by (simp add: arr_includes_def)

lemma indexOf_absent: "x \<notin> set xs \<Longrightarrow> indexOf xs x = - 1"
  by (induction xs) (auto simp: Let_def)

lemma indexOf_nonneg: "x \<in> set xs \<Longrightarrow> 0 \<le> indexOf xs x"
  by (induction xs) (auto simp: Let_def)

lemma indexOf_less: "x \<in> set xs \<Longrightarrow> indexOf xs x < int (length xs)"
  by (induction xs) (auto simp: Let_def)

lemma splice_one:
  assumes "0 \<le> i" and "i < int (length xs)"
  shows "splice xs i 1 = take (nat i) xs @ drop (Suc (nat i)) xs"
proof -
  have "nat (i + 1) = Suc (nat i)"
    using assms by simp
  then show ?thesis
    using assms by (simp add: splice_def Let_def min_def max_def)
qed

lemma splice_indexOf: "x \<in> set xs \<Longrightarrow> splice xs (indexOf xs x) 1 = remove1 x xs"
proof (induction xs)
  case Nil
  then show ?case by simp
next
  case (Cons y ys)
  show ?case
  proof (cases "y = x")
    case True
    then show ?thesis
      by (simp add: splice_def Let_def)
  next
    case False
    with Cons.prems have mem: "x \<in> set ys"
      by simp
    have lo: "0 \<le> indexOf ys x" and hi: "indexOf ys x < int (length ys)"
      using mem by (simp_all add: indexOf_nonneg indexOf_less)
    have idx: "indexOf (y # ys) x = indexOf ys x + 1"
      using False lo by (simp add: Let_def)
    have "splice (y # ys) (indexOf ys x + 1) 1
            = take (nat (indexOf ys x + 1)) (y # ys) @ drop (Suc (nat (indexOf ys x + 1))) (y # ys)"
      using lo hi by (intro splice_one) simp_all
    also have "nat (indexOf ys x + 1) = Suc (nat (indexOf ys x))"
      using lo by simp
    also have "take (Suc (nat (indexOf ys x))) (y # ys) @ drop (Suc (Suc (nat (indexOf ys x)))) (y # ys)
                 = y # splice ys (indexOf ys x) 1"
      using lo hi by (simp add: splice_one)
    finally show ?thesis
      using False idx Cons.IH [OF mem] by simp
  qed
qed

lemma mergeLocales_remove1: "mergeLocales langs u = u # remove1 u langs"
  by (simp add: mergeLocales_def unshift_def arr_includes_iff splice_indexOf remove1_idem)

lemma count_list_remove1_if:
  "count_list (remove1 u xs) x = (if x = u then count_list xs u - 1 else count_list xs x)"
  by (induction xs) auto

lemma subseq_remove1_self: "subseq (remove1 u xs) xs"
  by (induction xs) auto

lemma insert_set_remove1: "insert u (set (remove1 u xs)) = insert u (set xs)"
  by (induction xs) auto

subsection \<open>Locale merge\<close>

text \<open>
  C1 (as amended). For every list \<open>langs\<close> of supported locale codes and every code
  \<open>u\<close> of the user, the merged list has \<open>u\<close> at index 0 and is \<open>u\<close> followed by
  \<open>langs\<close> without the first occurrence of \<open>u\<close>: the other entries keep their
  relative order, every code other than \<open>u\<close> occurs as often as in \<open>langs\<close>, and
  \<open>u\<close> occurs once, or as often as in \<open>langs\<close> when that is more. When \<open>langs\<close> has
  no repeated entry, the result has none, so it holds each element of \<open>langs\<close> and
  \<open>u\<close> exactly once.
\<close>

theorem mergeLocales_user_first:
  "mergeLocales langs u ! 0 = u
   \<and> mergeLocales langs u = u # remove1 u langs
   \<and> subseq (tl (mergeLocales langs u)) langs
   \<and> set (mergeLocales langs u) = insert u (set langs)
   \<and> count_list (mergeLocales langs u) u = max 1 (count_list langs u)
   \<and> (\<forall>x. x \<noteq> u \<longrightarrow> count_list (mergeLocales langs u) x = count_list langs x)
   \<and> (distinct langs \<longrightarrow> distinct (mergeLocales langs u))"
proof -
  have eq: "mergeLocales langs u = u # remove1 u langs"
    by (rule mergeLocales_remove1)
  have "count_list (mergeLocales langs u) u = max 1 (count_list langs u)"
    unfolding eq by (simp add: count_list_remove1_if max_def)
  moreover have "\<forall>x. x \<noteq> u \<longrightarrow> count_list (mergeLocales langs u) x = count_list langs x"
    unfolding eq by (simp add: count_list_remove1_if)
  moreover have "distinct langs \<longrightarrow> distinct (mergeLocales langs u)"
    unfolding eq by simp
  moreover have "set (mergeLocales langs u) = insert u (set langs)"
    unfolding eq by (simp add: insert_set_remove1)
  moreover have "subseq (tl (mergeLocales langs u)) langs"
    unfolding eq by (simp add: subseq_remove1_self)
  ultimately show ?thesis
    using eq by simp
qed

theorem mergeLocales_user_first_witness:
  "distinct [''en'', ''fr'', ''de'']
   \<and> mergeLocales [''en'', ''fr'', ''de''] ''fr'' = [''fr'', ''en'', ''de'']
   \<and> distinct (mergeLocales [''en'', ''fr'', ''de''] ''fr'')
   \<and> count_list (mergeLocales [''en'', ''fr'', ''de''] ''fr'') ''en'' = 1"
  using mergeLocales_user_first [of "[''en'', ''fr'', ''de'']" "''fr''"]
  by simp

text \<open>
  C1 as stated fails on a list with a repeated entry: only the first occurrence of the
  user's code is removed and nothing else is deduplicated.
\<close>

theorem mergeLocales_dedup_counterexample:
  "mergeLocales [''en'', ''en''] ''fr'' = [''fr'', ''en'', ''en'']
   \<and> count_list (mergeLocales [''en'', ''en''] ''fr'') ''en'' \<noteq> 1
   \<and> mergeLocales [''fr'', ''en'', ''fr''] ''fr'' = [''fr'', ''en'', ''fr'']
   \<and> count_list (mergeLocales [''fr'', ''en'', ''fr''] ''fr'') ''fr'' \<noteq> 1"
  by (simp add: mergeLocales_def arr_includes_def splice_def unshift_def Let_def)

subsection \<open>Option lists and toggles\<close>

lemma fold_langs_opts:
  "opts (LANG_SELECT (fold (\<lambda>lang d'. d'\<lparr>LANG_SELECT :=
        appendChild (LANG_SELECT d') \<lparr>opt_value = lang, innerText = lang\<rparr>\<rparr>) langs d))
   = opts (LANG_SELECT d) @ map (\<lambda>lang. \<lparr>opt_value = lang, innerText = lang\<rparr>) langs"
  by (induction langs arbitrary: d) (simp_all add: appendChild_def)

lemma fold_langs_selectedIndex:
  "selectedIndex (LANG_SELECT (fold (\<lambda>lang d'. d'\<lparr>LANG_SELECT :=
        appendChild (LANG_SELECT d') \<lparr>opt_value = lang, innerText = lang\<rparr>\<rparr>) langs d))
   = (if langs = [] \<or> 0 \<le> selectedIndex (LANG_SELECT d) then selectedIndex (LANG_SELECT d) else 0)"
  by (induction langs arbitrary: d) (simp_all add: appendChild_def)

lemma toggleEnabled_LANG_SELECT: "LANG_SELECT (toggleEnabled b d) = LANG_SELECT d"
  by (simp add: toggleEnabled_def)

lemma toggleEnabled_API_SELECT: "API_SELECT (toggleEnabled b d) = API_SELECT d"
  by (simp add: toggleEnabled_def)

lemma showLoader_selects:
  "LANG_SELECT (showLoader b d) = LANG_SELECT d"
  "API_SELECT (showLoader b d) = API_SELECT d"
  by (simp_all add: showLoader_def)

lemma loadLangs_opts:
  "opts (LANG_SELECT (loadLangs langs d)) = map (\<lambda>lang. \<lparr>opt_value = lang, innerText = lang\<rparr>) langs"
  by (simp add: loadLangs_def Let_def toggleEnabled_LANG_SELECT fold_langs_opts clear_innerHTML_def)

lemma loadLangs_selectedIndex:
  "selectedIndex (LANG_SELECT (loadLangs langs d)) = (if langs = [] then - 1 else 0)"
  by (simp add: loadLangs_def Let_def toggleEnabled_LANG_SELECT fold_langs_selectedIndex
        clear_innerHTML_def)

lemma getSelectedLang_loadLangs: "getSelectedLang (loadLangs (l # ls) d) = l"
  by (simp add: getSelectedLang_def select_value_def loadLangs_opts loadLangs_selectedIndex)

lemma fold_endpoints_opts:
  "opts (API_SELECT (fold (\<lambda>api_endpoint d'.
                       case api_endpoint of
                         None \<Rightarrow> d'
                       | Some e \<Rightarrow>
                           d'\<lparr>API_SELECT :=
                                appendChild (API_SELECT d') \<lparr>opt_value = url e, innerText = name e\<rparr>\<rparr>)
                    raw d))
   = opts (API_SELECT d)
     @ map (\<lambda>e. \<lparr>opt_value = url e, innerText = name e\<rparr>) (List.map_filter id raw)"
proof (induction raw arbitrary: d)
  case Nil
  then show ?case
    by (simp add: List.map_filter_simps)
next
  case (Cons a raw)
  then show ?case
    by (cases a) (simp_all add: List.map_filter_simps appendChild_def)
qed

lemma fold_endpoints_LANG_SELECT:
  "LANG_SELECT (fold (\<lambda>api_endpoint d'.
                       case api_endpoint of
                         None \<Rightarrow> d'
                       | Some e \<Rightarrow>
                           d'\<lparr>API_SELECT :=
                                appendChild (API_SELECT d') \<lparr>opt_value = url e, innerText = name e\<rparr>\<rparr>)
                    raw d)
   = LANG_SELECT d"
  by (induction raw arbitrary: d) (simp_all split: option.splits)

lemma loadApiEndpoints_LANG_SELECT: "LANG_SELECT (loadApiEndpoints raw d) = LANG_SELECT d"
  by (simp add: loadApiEndpoints_def Let_def toggleEnabled_def fold_endpoints_LANG_SELECT)

lemma loaded_popup_values:
  "getSelectedLang (document loaded_popup) = ''en''"
  "getSelectedAPIEndpoint (document loaded_popup) = ''https://api.example.com''"
  "select_value (SPEC_SELECT (document loaded_popup)) = ''beta''"
  "executed loaded_popup = []"
  by (simp_all add: loaded_popup_def onMessage_def Let_def sample_popup_def sample_dom_def
        loadLangs_def loadApiEndpoints_def toggleEnabled_def clear_innerHTML_def appendChild_def
        getSelectedLang_def getSelectedAPIEndpoint_def select_value_def mergeLocales_remove1)

text \<open>
  C7. When the user's code \<open>u\<close> is not among the supported codes \<open>langs\<close>, the merged
  list is one element longer than \<open>langs\<close>; for empty \<open>langs\<close> it is \<open>[u]\<close>; and once
  the merged list is loaded into the locale select, the selected locale is its first
  element, \<open>u\<close>.
\<close>

theorem mergeLocales_absent_length:
  "(u \<notin> set langs \<longrightarrow> length (mergeLocales langs u) = length langs + 1)
   \<and> mergeLocales [] u = [u]
   \<and> getSelectedLang (loadLangs (mergeLocales langs u) d) = u"
  by (simp add: mergeLocales_remove1 getSelectedLang_loadLangs remove1_idem)

theorem mergeLocales_absent_length_witness:
  "''fr'' \<notin> set [''en'', ''de'']
   \<and> length (mergeLocales [''en'', ''de''] ''fr'') = 3
   \<and> mergeLocales [''en'', ''de''] ''fr'' = [''fr'', ''en'', ''de'']
   \<and> getSelectedLang (loadLangs (mergeLocales [''en'', ''de''] ''fr'') sample_dom) = ''fr''"
  using mergeLocales_absent_length [of "''fr''" "[''en'', ''de'']" sample_dom]
  by (simp add: mergeLocales_remove1)

subsection \<open>Endpoint list\<close>

text \<open>
  C8. For every raw list of endpoint descriptors and falsy placeholders, the options of
  the endpoint select after the load are made from exactly the descriptors of the list,
  in their order: reading the options back gives the list without its placeholders.
\<close>

theorem loadApiEndpoints_filters:
  "opts (API_SELECT (loadApiEndpoints raw d))
     = map (\<lambda>e. \<lparr>opt_value = url e, innerText = name e\<rparr>) (List.map_filter id raw)
   \<and> map descriptor_of (opts (API_SELECT (loadApiEndpoints raw d))) = List.map_filter id raw
   \<and> map Some (map descriptor_of (opts (API_SELECT (loadApiEndpoints raw d))))
       = filter (\<lambda>x. x \<noteq> None) raw"
proof -
  have a: "opts (API_SELECT (loadApiEndpoints raw d))
     = map (\<lambda>e. \<lparr>opt_value = url e, innerText = name e\<rparr>) (List.map_filter id raw)"
    by (simp add: loadApiEndpoints_def Let_def toggleEnabled_API_SELECT fold_endpoints_opts
          clear_innerHTML_def)
  have b: "map descriptor_of (map (\<lambda>e. \<lparr>opt_value = url e, innerText = name e\<rparr>) xs) = xs"
    for xs :: "endpoint list"
    by (induction xs) (simp_all add: descriptor_of_def)
  have c: "map Some (List.map_filter id raw) = filter (\<lambda>x. x \<noteq> None) raw"
    by (induction raw) (auto simp: List.map_filter_simps split: option.splits)
  show ?thesis
    using a b c by simp
qed

theorem loadApiEndpoints_filters_witness:
  "map descriptor_of (opts (API_SELECT (loadApiEndpoints
       [Some \<lparr>name = ''A'', url = ''u1''\<rparr>, None, Some \<lparr>name = ''B'', url = ''u2''\<rparr>] sample_dom)))
     = [\<lparr>name = ''A'', url = ''u1''\<rparr>, \<lparr>name = ''B'', url = ''u2''\<rparr>]"
  using loadApiEndpoints_filters
          [of "[Some \<lparr>name = ''A'', url = ''u1''\<rparr>, None, Some \<lparr>name = ''B'', url = ''u2''\<rparr>]" sample_dom]
  by (simp add: List.map_filter_simps descriptor_of_def)

text \<open>
  C6 (the code at the failing input). Loading the list \<open>[null]\<close> clears the endpoint
  select and adds no option, yet the \<open>.toggle\<close> element, disabled before, ends enabled:
  the toggle reads the length of the raw list. Loading the empty list, and loading an
  empty locale list, disable it.
\<close>

theorem loadApiEndpoints_placeholders_only:
  "opts (API_SELECT (loadApiEndpoints [None] (d\<lparr>toggle_elems := [[''toggle'', ''disabled'']]\<rparr>))) = []
   \<and> toggle_elems (loadApiEndpoints [None] (d\<lparr>toggle_elems := [[''toggle'', ''disabled'']]\<rparr>))
       = [[''toggle'', ''enabled'']]
   \<and> toggle_elems (loadApiEndpoints [] (d\<lparr>toggle_elems := [[''toggle'', ''enabled'']]\<rparr>))
       = [[''toggle'', ''disabled'']]
   \<and> toggle_elems (loadLangs [] (d\<lparr>toggle_elems := [[''toggle'', ''enabled'']]\<rparr>))
       = [[''toggle'', ''disabled'']]"
  by (simp add: loadApiEndpoints_def loadLangs_def Let_def toggleEnabled_def clear_innerHTML_def
        classList_add_def classList_remove_def)

subsection \<open>The stored preference\<close>

lemma SPEC_OPTIONS_truthy: "v \<in> set SPEC_OPTIONS \<Longrightarrow> truthy v"
  by (auto simp: SPEC_OPTIONS_def)

lemma js_or_in_options:
  "js_or v (JStr []) \<in> set SPEC_OPTIONS \<longleftrightarrow> v \<in> set SPEC_OPTIONS"
  by (cases "truthy v") (auto simp: js_or_def SPEC_OPTIONS_def)

lemma getSpecVersion_snd:
  "snd (getSpecVersion rd st p) =
     (case rd of
        ReadThrows err \<Rightarrow> Resolved (JStr (select_value (SPEC_SELECT (document p))))
      | ReadNoItems \<Rightarrow> Pending
      | ReadItems \<Rightarrow>
          (case st STORAGE_KEYS_schemaVersion of
             None \<Rightarrow> Resolved (JStr (select_value (SPEC_SELECT (document p))))
           | Some v \<Rightarrow>
               if v \<in> set SPEC_OPTIONS then Resolved v
               else Resolved (JStr (select_value (SPEC_SELECT (document p))))))"
proof (cases rd)
  case (ReadThrows err)
  then show ?thesis
    by (simp add: getSpecVersion_def)
next
  case ReadNoItems
  then show ?thesis
    by (simp add: getSpecVersion_def)
next
  case ReadItems
  show ?thesis
  proof (cases "st STORAGE_KEYS_schemaVersion")
    case None
    have "js_or JUndefined (JStr []) \<notin> set SPEC_OPTIONS"
      by (simp add: js_or_in_options) (simp add: SPEC_OPTIONS_def)
    then show ?thesis
      using ReadItems None
      by (simp add: getSpecVersion_def Let_def storage_sync_get_def js_get_def arr_includes_def)
  next
    case (Some v)
    show ?thesis
    proof (cases "v \<in> set SPEC_OPTIONS")
      case True
      then have "js_or v (JStr []) = v"
        by (simp add: js_or_def SPEC_OPTIONS_truthy)
      then show ?thesis
        using ReadItems Some True
        by (simp add: getSpecVersion_def Let_def storage_sync_get_def js_get_def arr_includes_def)
    next
      case False
      then have "js_or v (JStr []) \<notin> set SPEC_OPTIONS"
        by (simp add: js_or_in_options)
      then show ?thesis
        using ReadItems Some False
        by (simp add: getSpecVersion_def Let_def storage_sync_get_def js_get_def arr_includes_def)
    qed
  qed
qed

lemma getSpecVersion_fst:
  "fst (getSpecVersion rd st p) =
     (case rd of
        ReadThrows err \<Rightarrow> p\<lparr>console := console p @ [LogError err]\<rparr>
      | ReadNoItems \<Rightarrow> p
      | ReadItems \<Rightarrow> p)"
  by (cases rd) (simp_all add: getSpecVersion_def Let_def)

text \<open>
  What \<open>getSpecVersion\<close> does when the callback is run with the items, and when the
  call throws: it resolves to the stored value when that is one of \<open>legacy\<close>,
  \<open>stable\<close>, \<open>beta\<close>, and to the value the version select shows when the key is
  absent, the stored value is anything else, or the call throws; a thrown error is
  written to the console.
\<close>

lemma getSpecVersion_resolves:
  "(rd = ReadItems \<and> st ''schemaVersion'' = Some v
      \<and> v \<in> {JStr ''legacy'', JStr ''stable'', JStr ''beta''}
      \<longrightarrow> snd (getSpecVersion rd st p) = Resolved v)
   \<and> ((\<exists>err. rd = ReadThrows err)
        \<or> rd = ReadItems \<and> st ''schemaVersion'' = None
        \<or> rd = ReadItems \<and> (\<exists>w. st ''schemaVersion'' = Some w
               \<and> w \<notin> {JStr ''legacy'', JStr ''stable'', JStr ''beta''})
      \<longrightarrow> snd (getSpecVersion rd st p)
            = Resolved (JStr (select_value (SPEC_SELECT (document p)))))
   \<and> (\<forall>err. snd (getSpecVersion rd st p) \<noteq> Rejected err)
   \<and> (\<forall>err. rd = ReadThrows err
        \<longrightarrow> fst (getSpecVersion rd st p) = p\<lparr>console := console p @ [LogError err]\<rparr>)"
  by (auto simp: getSpecVersion_snd getSpecVersion_fst SPEC_OPTIONS_def
        STORAGE_KEYS_schemaVersion_def split: option.splits storage_read.splits)

text \<open>
  C3 (the code at the failing input). When the read fails after the call has returned,
  so that the callback is run without items, \<open>getSpecVersion\<close> resolves to nothing: for
  every storage content and every popup the promise stays pending and the popup, console
  included, is as before. On the sample popup, which shows \<open>beta\<close>, it is pending where
  the claim has it resolve to \<open>beta\<close>; a throwing call there does resolve to \<open>beta\<close>.
\<close>

theorem getSpecVersion_failed_read_pending:
  "getSpecVersion ReadNoItems st p = (p, Pending)
   \<and> snd (getSpecVersion ReadNoItems Map.empty sample_popup) = Pending
   \<and> snd (getSpecVersion ReadNoItems Map.empty sample_popup) \<noteq> Resolved (JStr ''beta'')
   \<and> select_value (SPEC_SELECT (document sample_popup)) = ''beta''
   \<and> snd (getSpecVersion (ReadThrows (StorageError ''unavailable'')) Map.empty sample_popup)
       = Resolved (JStr ''beta'')"
  by (simp add: getSpecVersion_def sample_popup_def sample_dom_def select_value_def)

text \<open>
  C9. When the version select shows one of \<open>legacy\<close>, \<open>stable\<close>, \<open>beta\<close>, then for
  every storage content and every way the read ends, whatever \<open>getSpecVersion\<close>
  resolves to is one of \<open>legacy\<close>, \<open>stable\<close>, \<open>beta\<close>, and the promise is never
  rejected. Unless the callback is run without items, it does resolve.
\<close>

theorem getSpecVersion_in_enum:
  assumes "select_value (SPEC_SELECT (document p)) \<in> {''legacy'', ''stable'', ''beta''}"
  shows "(\<forall>v. snd (getSpecVersion rd st p) = Resolved v
            \<longrightarrow> (\<exists>s. s \<in> {''legacy'', ''stable'', ''beta''} \<and> v = JStr s))
         \<and> (\<forall>err. snd (getSpecVersion rd st p) \<noteq> Rejected err)
         \<and> (rd \<noteq> ReadNoItems
              \<longrightarrow> (\<exists>s. s \<in> {''legacy'', ''stable'', ''beta''}
                        \<and> snd (getSpecVersion rd st p) = Resolved (JStr s)))"
  using assms
  by (auto simp: getSpecVersion_snd SPEC_OPTIONS_def split: option.splits storage_read.splits)

theorem getSpecVersion_in_enum_witness:
  "select_value (SPEC_SELECT (document sample_popup)) \<in> {''legacy'', ''stable'', ''beta''}
   \<and> ReadItems \<noteq> ReadNoItems
   \<and> (\<exists>s. s \<in> {''legacy'', ''stable'', ''beta''}
          \<and> snd (getSpecVersion ReadItems [''schemaVersion'' \<mapsto> JNum 7] sample_popup)
              = Resolved (JStr s))"
proof -
  have ui: "select_value (SPEC_SELECT (document sample_popup)) \<in> {''legacy'', ''stable'', ''beta''}"
    by (simp add: sample_popup_def sample_dom_def select_value_def)
  show ?thesis
    using ui getSpecVersion_in_enum [OF ui, of ReadItems "[''schemaVersion'' \<mapsto> JNum 7]"]
    by simp
qed

text \<open>
  C10. For every version and every prior storage content, \<open>setSpecVersion\<close> leaves
  every key other than \<open>schemaVersion\<close> as it was, and \<open>schemaVersion\<close> holds the
  version afterwards.
\<close>

theorem setSpecVersion_frame:
  "(k \<noteq> ''schemaVersion'' \<longrightarrow> setSpecVersion version st k = st k)
   \<and> setSpecVersion version st ''schemaVersion'' = Some (JStr version)"
  by (simp add: setSpecVersion_def storage_sync_set_def STORAGE_KEYS_schemaVersion_def)

theorem setSpecVersion_frame_witness:
  "''theme'' \<noteq> ''schemaVersion''
   \<and> setSpecVersion ''beta'' [''theme'' \<mapsto> JStr ''dark'', ''schemaVersion'' \<mapsto> JStr ''legacy'']
         ''theme''
       = Some (JStr ''dark'')
   \<and> setSpecVersion ''beta'' [''theme'' \<mapsto> JStr ''dark'', ''schemaVersion'' \<mapsto> JStr ''legacy'']
         ''schemaVersion''
       = Some (JStr ''beta'')"
  using setSpecVersion_frame
          [of "''theme''" "''beta''"
              "[''theme'' \<mapsto> JStr ''dark'', ''schemaVersion'' \<mapsto> JStr ''legacy'']"]
  by simp

subsection \<open>The message listener\<close>

text \<open>
  C4. For every message and sender, the listener runs the locales handler (it fills the
  locale select with the merged list and requests the endpoint file) if and only if
  \<open>sender.id\<close> is the extension's own id and the key is \<open>locales\<close>. In every other
  case the popup is as before but for the console line the listener writes first: the
  document, the scripts sent to the tab and the requests are unchanged, and no error
  results.
\<close>

theorem onMessage_accepts_iff:
  "(fetches (fst (onMessage ext u f m s p)) = fetches p @ [u]
      \<longleftrightarrow> sender_id s = Some ext \<and> key m = ''locales'')
   \<and> (sender_id s = Some ext \<and> key m = ''locales''
      \<longrightarrow> opts (LANG_SELECT (document (fst (onMessage ext u f m s p))))
            = map (\<lambda>lang. \<lparr>opt_value = lang, innerText = lang\<rparr>)
                (mergeLocales (supported (msg_value m)) (user (msg_value m))))
   \<and> (\<not> (sender_id s = Some ext \<and> key m = ''locales'')
      \<longrightarrow> fst (onMessage ext u f m s p) = p\<lparr>console := console p @ [LogMessage m]\<rparr>
          \<and> document (fst (onMessage ext u f m s p)) = document p
          \<and> executed (fst (onMessage ext u f m s p)) = executed p
          \<and> fetches (fst (onMessage ext u f m s p)) = fetches p
          \<and> snd (onMessage ext u f m s p) = None)"
proof (cases "sender_id s = Some ext \<and> key m = ''locales''")
  case True
  then show ?thesis
    by (cases f) (simp_all add: onMessage_def Let_def loadLangs_opts loadApiEndpoints_LANG_SELECT)
next
  case False
  then show ?thesis
    by (auto simp: onMessage_def Let_def)
qed

theorem onMessage_accepts_iff_witness:
  "opts (LANG_SELECT (document (fst (onMessage ''ext-id'' ''chrome-extension://ext-id/endpoints.json''
        (Inr [])
        \<lparr>key = ''locales'', msg_value = \<lparr>supported = [''en'', ''fr'', ''de''], user = ''fr''\<rparr>\<rparr>
        \<lparr>sender_id = Some ''ext-id''\<rparr> sample_popup))))
     = [\<lparr>opt_value = ''fr'', innerText = ''fr''\<rparr>, \<lparr>opt_value = ''en'', innerText = ''en''\<rparr>,
        \<lparr>opt_value = ''de'', innerText = ''de''\<rparr>]
   \<and> document (fst (onMessage ''ext-id'' ''chrome-extension://ext-id/endpoints.json''
        (Inl (NetworkError ''offline''))
        \<lparr>key = ''unknown'', msg_value = \<lparr>supported = [''en'', ''fr'', ''de''], user = ''fr''\<rparr>\<rparr>
        \<lparr>sender_id = Some ''ext-id''\<rparr> sample_popup)) = document sample_popup
   \<and> snd (onMessage ''ext-id'' ''chrome-extension://ext-id/endpoints.json''
        (Inl (NetworkError ''offline''))
        \<lparr>key = ''unknown'', msg_value = \<lparr>supported = [''en'', ''fr'', ''de''], user = ''fr''\<rparr>\<rparr>
        \<lparr>sender_id = Some ''ext-id''\<rparr> sample_popup) = None
   \<and> document (fst (onMessage ''ext-id'' ''chrome-extension://ext-id/endpoints.json''
        (Inl (NetworkError ''offline''))
        \<lparr>key = ''locales'', msg_value = \<lparr>supported = [''en'', ''fr'', ''de''], user = ''fr''\<rparr>\<rparr>
        \<lparr>sender_id = Some ''other-id''\<rparr> sample_popup)) = document sample_popup"
  using onMessage_accepts_iff
          [where ext = "''ext-id''" and u = "''chrome-extension://ext-id/endpoints.json''"
             and f = "Inr []"
             and m = "\<lparr>key = ''locales'',
                        msg_value = \<lparr>supported = [''en'', ''fr'', ''de''], user = ''fr''\<rparr>\<rparr>"
             and s = "\<lparr>sender_id = Some ''ext-id''\<rparr>" and p = sample_popup]
        onMessage_accepts_iff
          [where ext = "''ext-id''" and u = "''chrome-extension://ext-id/endpoints.json''"
             and f = "Inl (NetworkError ''offline'')"
             and m = "\<lparr>key = ''unknown'',
                        msg_value = \<lparr>supported = [''en'', ''fr'', ''de''], user = ''fr''\<rparr>\<rparr>"
             and s = "\<lparr>sender_id = Some ''ext-id''\<rparr>" and p = sample_popup]
        onMessage_accepts_iff
          [where ext = "''ext-id''" and u = "''chrome-extension://ext-id/endpoints.json''"
             and f = "Inl (NetworkError ''offline'')"
             and m = "\<lparr>key = ''locales'',
                        msg_value = \<lparr>supported = [''en'', ''fr'', ''de''], user = ''fr''\<rparr>\<rparr>"
             and s = "\<lparr>sender_id = Some ''other-id''\<rparr>" and p = sample_popup]
  by (simp add: mergeLocales_remove1)

subsection \<open>The bootstrap code\<close>

text \<open>
  C5. An execution of the bootstrap code leaves \<open>liToJrInstance\<close> bound. A second
  execution leaves that binding and the number of constructor runs as the first left
  them, so two executions from an unbound state run the constructor exactly once; and
  an execution in a scope where an instance is already bound keeps that instance and
  constructs nothing.
\<close>

theorem createMainInstanceCode_idempotent:
  "liToJrInstance (createMainInstanceCode ctor r) \<noteq> None
   \<and> liToJrInstance (createMainInstanceCode ctor' (createMainInstanceCode ctor r))
       = liToJrInstance (createMainInstanceCode ctor r)
   \<and> constructed (createMainInstanceCode ctor' (createMainInstanceCode ctor r))
       = constructed (createMainInstanceCode ctor r)
   \<and> (liToJrInstance r = None
        \<longrightarrow> constructed (createMainInstanceCode ctor' (createMainInstanceCode ctor r))
              = constructed r + 1)
   \<and> (liToJrInstance r \<noteq> None
        \<longrightarrow> liToJrInstance (createMainInstanceCode ctor r) = liToJrInstance r
          \<and> constructed (createMainInstanceCode ctor r) = constructed r)"
  by (cases "liToJrInstance r") (simp_all add: createMainInstanceCode_def Let_def)

theorem createMainInstanceCode_idempotent_witness:
  "liToJrInstance \<lparr>href = ''https://www.linkedin.com/in/someone/'', isDebug = None,
       window_LinkedinToResumeJson = False, liToJrInstance = (None :: string option),
       constructed = 0\<rparr> = None
   \<and> constructed (createMainInstanceCode (\<lambda>d. ''fresh'') (createMainInstanceCode (\<lambda>d. ''fresh'')
        \<lparr>href = ''https://www.linkedin.com/in/someone/'', isDebug = None,
          window_LinkedinToResumeJson = False, liToJrInstance = None, constructed = 0\<rparr>)) = 1
   \<and> liToJrInstance (createMainInstanceCode (\<lambda>d. ''fresh'')
        \<lparr>href = ''https://www.linkedin.com/in/someone/?li2jr_debug=true'', isDebug = Some False,
          window_LinkedinToResumeJson = False, liToJrInstance = Some ''parsing'',
          constructed = 1\<rparr>)
       = Some ''parsing''
   \<and> constructed (createMainInstanceCode (\<lambda>d. ''fresh'')
        \<lparr>href = ''https://www.linkedin.com/in/someone/?li2jr_debug=true'', isDebug = Some False,
          window_LinkedinToResumeJson = False, liToJrInstance = Some ''parsing'',
          constructed = 1\<rparr>) = 1"
  using createMainInstanceCode_idempotent
          [where ctor = "\<lambda>d. ''fresh''" and ctor' = "\<lambda>d. ''fresh''"
             and r = "\<lparr>href = ''https://www.linkedin.com/in/someone/'', isDebug = None,
                        window_LinkedinToResumeJson = False, liToJrInstance = None,
                        constructed = 0\<rparr>"]
        createMainInstanceCode_idempotent
          [where ctor = "\<lambda>d. ''fresh''" and ctor' = "\<lambda>d. ''fresh''"
             and r = "\<lparr>href = ''https://www.linkedin.com/in/someone/?li2jr_debug=true'',
                        isDebug = Some False, window_LinkedinToResumeJson = False,
                        liToJrInstance = Some ''parsing'', constructed = 1\<rparr>"]
  by simp

subsection \<open>The send action\<close>

lemma sublist_append_mid: "sublist x (a @ x @ b)"
  by (auto simp: sublist_def)

lemma liToApiButton_click_executed:
  "executed (liToApiButton_click q)
     = executed q @
       [''liToJrInstance.preferLocale = '' @ squote @ getSelectedLang (document q) @ squote @
        '';liToJrInstance.parseAndSendToApi('' @ squote @
        getSelectedAPIEndpoint (document q) @ squote @ '');'']"
  by (simp add: liToApiButton_click_def Let_def getSelectedLang_def getSelectedAPIEndpoint_def
        showLoader_selects)

text \<open>
  The show action is the one place where the version enters a code string: the string of
  \<open>getRunAndShowCode\<close> contains the version it is given. The download action, like
  the send action, builds its string from the selected locale alone.
\<close>

lemma getRunAndShowCode_version: "str_includes (getRunAndShowCode version d) version"
  unfolding getRunAndShowCode_def str_includes_def
  using sublist_append_mid [of version
      "''liToJrInstance.preferLocale = '' @ squote @ getSelectedLang d @ squote @
       '';liToJrInstance.parseAndShowOutput('' @ squote" "squote @ '');''"]
  by simp

lemma liToJsonDownloadButton_click_version:
  "executed (liToJsonDownloadButton_click (p\<lparr>document := (document p)\<lparr>SPEC_SELECT := sel\<rparr>\<rparr>))
     = executed (liToJsonDownloadButton_click p)"
  by (simp add: liToJsonDownloadButton_click_def getSelectedLang_def)

text \<open>
  C2 (as amended). For every popup state, the send action hands the tab exactly one code
  string: it sets \<open>preferLocale\<close> to the selected locale and calls
  \<open>parseAndSendToApi\<close> with the selected endpoint URL, both between single quotes. The
  string contains that endpoint and that locale, and it is the same whatever the
  version select holds: the schema version is not part of it.
\<close>

theorem liToApiButton_click_payload:
  "executed (liToApiButton_click p)
     = executed p @
       [''liToJrInstance.preferLocale = '' @ squote @ getSelectedLang (document p) @ squote @
        '';liToJrInstance.parseAndSendToApi('' @ squote @
        getSelectedAPIEndpoint (document p) @ squote @ '');'']
   \<and> str_includes (last (executed (liToApiButton_click p))) (getSelectedAPIEndpoint (document p))
   \<and> str_includes (last (executed (liToApiButton_click p))) (getSelectedLang (document p))
   \<and> executed (liToApiButton_click (p\<lparr>document := (document p)\<lparr>SPEC_SELECT := sel\<rparr>\<rparr>))
       = executed (liToApiButton_click p)"
proof -
  note e = liToApiButton_click_executed
  have a: "str_includes (last (executed (liToApiButton_click p)))
             (getSelectedAPIEndpoint (document p))"
    unfolding e str_includes_def
    using sublist_append_mid [of "getSelectedAPIEndpoint (document p)"
        "''liToJrInstance.preferLocale = '' @ squote @ getSelectedLang (document p) @ squote @
         '';liToJrInstance.parseAndSendToApi('' @ squote" "squote @ '');''"]
    by simp
  have l: "str_includes (last (executed (liToApiButton_click p))) (getSelectedLang (document p))"
    unfolding e str_includes_def
    using sublist_append_mid [of "getSelectedLang (document p)"
        "''liToJrInstance.preferLocale = '' @ squote"
        "squote @ '';liToJrInstance.parseAndSendToApi('' @ squote @
           getSelectedAPIEndpoint (document p) @ squote @ '');''"]
    by simp
  have v: "executed (liToApiButton_click (p\<lparr>document := (document p)\<lparr>SPEC_SELECT := sel\<rparr>\<rparr>))
       = executed (liToApiButton_click p)"
    unfolding e by (simp add: getSelectedLang_def getSelectedAPIEndpoint_def)
  show ?thesis
    using e [of p] a l v by blast
qed

theorem liToApiButton_click_payload_witness:
  "executed (liToApiButton_click loaded_popup)
       = [''liToJrInstance.preferLocale = '' @ squote @ ''en'' @ squote @
          '';liToJrInstance.parseAndSendToApi('' @ squote @ ''https://api.example.com'' @ squote @
          '');'']
   \<and> str_includes (last (executed (liToApiButton_click loaded_popup))) ''https://api.example.com''"
proof -
  note t = liToApiButton_click_payload [of loaded_popup]
  from t have "executed (liToApiButton_click loaded_popup)
     = executed loaded_popup @
       [''liToJrInstance.preferLocale = '' @ squote @ getSelectedLang (document loaded_popup) @ squote @
        '';liToJrInstance.parseAndSendToApi('' @ squote @
        getSelectedAPIEndpoint (document loaded_popup) @ squote @ '');'']"
    by (rule conjunct1)
  then have a: "executed (liToApiButton_click loaded_popup)
       = [''liToJrInstance.preferLocale = '' @ squote @ ''en'' @ squote @
          '';liToJrInstance.parseAndSendToApi('' @ squote @ ''https://api.example.com'' @ squote @
          '');'']"
    by (simp only: loaded_popup_values append_Nil)
  from t have "str_includes (last (executed (liToApiButton_click loaded_popup)))
      (getSelectedAPIEndpoint (document loaded_popup))"
    by (rule conjunct2 [THEN conjunct1])
  then have b: "str_includes (last (executed (liToApiButton_click loaded_popup)))
      ''https://api.example.com''"
    by (simp only: loaded_popup_values)
  from a b show ?thesis
    by (rule conjI)
qed

text \<open>
  C2 as stated fails: with \<open>beta\<close> shown in the version select (and resolved by
  \<open>getSpecVersion\<close>) and the endpoint \<open>https://api.example.com\<close> selected, the code
  string of the send action does not contain \<open>beta\<close>.
\<close>

theorem liToApiButton_click_version_counterexample:
  "select_value (SPEC_SELECT (document loaded_popup)) = ''beta''
   \<and> snd (getSpecVersion ReadItems Map.empty loaded_popup) = Resolved (JStr ''beta'')
   \<and> getSelectedAPIEndpoint (document loaded_popup) = ''https://api.example.com''
   \<and> executed (liToApiButton_click loaded_popup)
       = [''liToJrInstance.preferLocale = '' @ squote @ ''en'' @ squote @
          '';liToJrInstance.parseAndSendToApi('' @ squote @ ''https://api.example.com'' @ squote @
          '');'']
   \<and> \<not> str_includes (last (executed (liToApiButton_click loaded_popup))) ''beta''"
proof -
  have e: "executed (liToApiButton_click loaded_popup)
       = [''liToJrInstance.preferLocale = '' @ squote @ ''en'' @ squote @
          '';liToJrInstance.parseAndSendToApi('' @ squote @ ''https://api.example.com'' @ squote @
          '');'']"
    by (simp only: liToApiButton_click_executed loaded_popup_values append_Nil)
  have n: "\<not> str_includes (last (executed (liToApiButton_click loaded_popup))) ''beta''"
    unfolding e str_includes_def squote_def by code_simp
  have g: "snd (getSpecVersion ReadItems Map.empty loaded_popup) = Resolved (JStr ''beta'')"
    by (simp add: getSpecVersion_snd loaded_popup_values)
  show ?thesis
    using e n g loaded_popup_values by simp
qed

end
